theory Spec2Isabelle
  imports Main "HOL-Library.Sublist"
begin

section \<open>The column lister: data received from the service\<close>

text \<open>
  The script \<^verbatim>\<open>Smartsheet_Column_Numbers.py\<close> reads three attributes of every column
  (\<^verbatim>\<open>col.title\<close>, \<^verbatim>\<open>col.id\<close>, \<^verbatim>\<open>col.type\<close>) and two of the sheet
  (\<^verbatim>\<open>sheet.name\<close>, \<^verbatim>\<open>sheet.columns\<close>). Text is a \<open>string\<close>: the bytes that reach
  standard output. The identifier is a Python integer. The type tag is kept as the text
  that formatting it yields (a name such as \<^verbatim>\<open>TEXT_NUMBER\<close>); the script never looks
  inside it. The fields \<open>id\<close> and \<open>type\<close> carry a suffix, \<open>id\<close> being a constant of HOL.
\<close>

record column =
  title :: string
  id_col :: int
  type_col :: string

record sheet =
  name :: string
  columns :: "column list"

subsection \<open>Configuration\<close>

definition ACCESS_TOKEN :: string where
  "ACCESS_TOKEN = ''YOUR_ACCESS_TOKEN''"

definition SHEET_ID :: int where
  "SHEET_ID = 1234567890123456"

subsection \<open>The client object\<close>

text \<open>
  \<^verbatim>\<open>smartsheet.Smartsheet(ACCESS_TOKEN)\<close> builds a client holding the token;
  \<^verbatim>\<open>errors_as_exceptions(True)\<close> sets its preference to raise on an error reply.
\<close>

record client =
  access_token :: string
  raise_exceptions :: bool

definition Smartsheet :: "string \<Rightarrow> client" where
  "Smartsheet token = \<lparr>access_token = token, raise_exceptions = False\<rparr>"

definition errors_as_exceptions :: "client \<Rightarrow> bool \<Rightarrow> client" where
  "errors_as_exceptions c preference = c\<lparr>raise_exceptions := preference\<rparr>"

section \<open>Formatting\<close>

text \<open>
  \<^verbatim>\<open>str\<close> of a Python integer: decimal digits, most significant first, with a
  leading minus sign for a negative number.
\<close>

definition digit_chr :: "nat \<Rightarrow> char" where
  "digit_chr d = char_of (48 + d)"

fun str_nat :: "nat \<Rightarrow> string" where
  "str_nat n = (if 10 \<le> n then str_nat (n div 10) @ [digit_chr (n mod 10)] else [digit_chr n])"

declare str_nat.simps [simp del]

definition str_int :: "int \<Rightarrow> string" where
  "str_int i = (if i < 0 then CHR ''-'' # str_nat (nat (- i)) else str_nat (nat i))"

text \<open>
  An f-string is the concatenation of its literal pieces and of its formatted values.
  The apostrophe is written as the character \<open>0x27\<close>.
\<close>

definition apostrophe :: char where
  "apostrophe = CHR 0x27"

definition header :: "sheet \<Rightarrow> string" where
  "header sh = concat [''Columns for sheet '', [apostrophe], name sh, [apostrophe], '':'']"

definition column_line :: "column \<Rightarrow> string" where
  "column_line col =
     concat [''- '', title col, '' (ID: '', str_int (id_col col), '', Type: '', type_col col, '')'']"

section \<open>The process\<close>

text \<open>
  The state of a run: \<open>world\<close> is everything outside the process (the remote service, the
  network, the file system), which the script reaches only through the client library;
  \<open>calls\<close> logs each call of \<^verbatim>\<open>Sheets.get_sheet\<close> with the client and the sheet
  identifier passed; \<open>stdout\<close> is the text written to standard output so far;
  \<open>uncaught\<close> is the exception that ended the run, if one did (the interpreter then
  prints its traceback on standard error).
\<close>

record ('e, 'w) process =
  world :: 'w
  calls :: "(client \<times> int) list"
  stdout :: string
  uncaught :: "'e option"

definition newline :: char where
  "newline = CHR 0x0A"

definition print :: "string \<Rightarrow> ('e, 'w) process \<Rightarrow> ('e, 'w) process" where
  "print s p = p\<lparr>stdout := stdout p @ s @ [newline]\<rparr>"

text \<open>The loop \<^verbatim>\<open>for col in sheet.columns: print(f"- ...")\<close>.\<close>

fun for_col :: "column list \<Rightarrow> ('e, 'w) process \<Rightarrow> ('e, 'w) process" where
  "for_col [] p = p"
| "for_col (col # cols) p = for_col cols (print (column_line col) p)"

text \<open>
  The script, with the two configuration values as arguments. The library's
  \<^verbatim>\<open>Sheets.get_sheet\<close> is a parameter: called with the client and the sheet identifier
  in a state of the world, it returns the sheet or raises (\<open>Inl\<close>), and leaves the world
  in a new state. An exception is not caught by the script, so it ends the run before
  the first \<^verbatim>\<open>print\<close>.
\<close>

definition script ::
  "(client \<Rightarrow> int \<Rightarrow> 'w \<Rightarrow> ('e + sheet) \<times> 'w) \<Rightarrow> string \<Rightarrow> int \<Rightarrow> 'w \<Rightarrow> ('e, 'w) process" where
  "script get_sheet token sheet_id w =
     (let smartsheet_client = errors_as_exceptions (Smartsheet token) True;
          (r, w') = get_sheet smartsheet_client sheet_id w;
          p = \<lparr>world = w', calls = [(smartsheet_client, sheet_id)], stdout = [], uncaught = None\<rparr>
      in case r of
           Inl e \<Rightarrow> p\<lparr>uncaught := Some e\<rparr>
         | Inr sh \<Rightarrow> for_col (columns sh) (print (header sh) p))"

definition main ::
  "(client \<Rightarrow> int \<Rightarrow> 'w \<Rightarrow> ('e + sheet) \<times> 'w) \<Rightarrow> 'w \<Rightarrow> ('e, 'w) process" where
  "main get_sheet w = script get_sheet ACCESS_TOKEN SHEET_ID w"

text \<open>
  The exit status of the interpreter: zero when the module ran to its end, one when an
  exception was not caught.
\<close>

definition exit_status :: "('e, 'w) process \<Rightarrow> int" where
  "exit_status p = (case uncaught p of None \<Rightarrow> 0 | Some e \<Rightarrow> 1)"

section \<open>Notions used to state the properties\<close>

text \<open>
  What the call of \<^verbatim>\<open>Sheets.get_sheet\<close> made by a run returns: the script passes the
  client built from the token, with exceptions switched on.
\<close>

definition fetched ::
  "(client \<Rightarrow> int \<Rightarrow> 'w \<Rightarrow> ('e + sheet) \<times> 'w) \<Rightarrow> string \<Rightarrow> int \<Rightarrow> 'w \<Rightarrow> 'e + sheet" where
  "fetched get_sheet token sheet_id w =
     fst (get_sheet (errors_as_exceptions (Smartsheet token) True) sheet_id w)"

text \<open>The text of a sequence of printed lines, each ended by a newline.\<close>

definition lines_text :: "string list \<Rightarrow> string" where
  "lines_text ls = concat (map (\<lambda>l. l @ [newline]) ls)"

text \<open>The physical lines of a text: the pieces between newline characters.\<close>

fun split_lines :: "string \<Rightarrow> string list" where
  "split_lines [] = []"
| "split_lines (c # cs) =
     (if c = newline then [] # split_lines cs
      else (case split_lines cs of [] \<Rightarrow> [[c]] | l # ls \<Rightarrow> (c # l) # ls))"

text \<open>Reading a decimal numeral back, as Python's \<^verbatim>\<open>int\<close> does on the output of \<^verbatim>\<open>str\<close>.\<close>

definition digit_val :: "char \<Rightarrow> nat" where
  "digit_val c = of_char c - 48"

definition int_nat_str :: "string \<Rightarrow> nat" where
  "int_nat_str s = foldl (\<lambda>a c. 10 * a + digit_val c) 0 s"

definition int_str :: "string \<Rightarrow> int" where
  "int_str s =
     (case s of
        [] \<Rightarrow> 0
      | c # cs \<Rightarrow> if c = CHR ''-'' then - int (int_nat_str cs) else int (int_nat_str s))"

text \<open>The sheet of the specification's example.\<close>

definition example_sheet :: sheet where
  "example_sheet = \<lparr>name = ''Project Plan'', columns =
     [\<lparr>title = ''Task Name'', id_col = 111, type_col = ''TEXT_NUMBER''\<rparr>,
      \<lparr>title = ''Due Date'', id_col = 222, type_col = ''DATE''\<rparr>]\<rparr>"

text \<open>Two library stubs for concrete runs: one returns the example sheet, one raises.\<close>

definition found :: "client \<Rightarrow> int \<Rightarrow> unit \<Rightarrow> (string + sheet) \<times> unit" where
  "found c i w = (Inr example_sheet, w)"

definition not_found :: "client \<Rightarrow> int \<Rightarrow> unit \<Rightarrow> (string + sheet) \<times> unit" where
  "not_found c i w = (Inl ''Not Found'', w)"

text \<open>
  Further inputs for concrete runs: a second stub returning the example sheet, over
  another world and error type; a column whose title contains the text that precedes
  the identifier; a sheet without columns; a sheet whose name spans two lines.
\<close>

definition found_elsewhere :: "client \<Rightarrow> int \<Rightarrow> nat \<Rightarrow> (unit + sheet) \<times> nat" where
  "found_elsewhere c i w = (Inr example_sheet, Suc w)"


definition empty_sheet :: sheet where
  "empty_sheet = \<lparr>name = ''Empty'', columns = []\<rparr>"

definition found_empty :: "client \<Rightarrow> int \<Rightarrow> unit \<Rightarrow> (string + sheet) \<times> unit" where
  "found_empty c i w = (Inr empty_sheet, w)"









section \<open>Properties of the operations\<close>

subsection \<open>Printing and the loop\<close>

lemma for_col_stdout: "stdout (for_col cols p) = stdout p @ lines_text (map column_line cols)"
  by (induction cols arbitrary: p) (simp_all add: lines_text_def print_def)



lemma for_col_uncaught: "uncaught (for_col cols p) = uncaught p"
  by (induction cols arbitrary: p) (simp_all add: print_def)

lemma script_stdout_Inr:
  assumes "fetched gs tok sid w = Inr sh"
  shows "stdout (script gs tok sid w) = lines_text (header sh # map column_line (columns sh))"
  using assms
  by (cases "gs (errors_as_exceptions (Smartsheet tok) True) sid w")
     (simp add: fetched_def script_def Let_def for_col_stdout print_def lines_text_def)

lemma script_uncaught_Inr:
  assumes "fetched gs tok sid w = Inr sh"
  shows "uncaught (script gs tok sid w) = None"
  using assms
  by (cases "gs (errors_as_exceptions (Smartsheet tok) True) sid w")
     (simp add: fetched_def script_def Let_def for_col_uncaught print_def)

lemma script_Inl:
  assumes "fetched gs tok sid w = Inl e"
  shows "stdout (script gs tok sid w) = [] \<and> uncaught (script gs tok sid w) = Some e"
  using assms
  by (cases "gs (errors_as_exceptions (Smartsheet tok) True) sid w")
     (simp add: fetched_def script_def Let_def)



subsection \<open>Lines of text\<close>




subsection \<open>Decimal numerals\<close>

lemma digit_val_chr: "d < 10 \<Longrightarrow> digit_val (digit_chr d) = d"
  by (simp add: digit_val_def digit_chr_def)

lemma int_nat_str_snoc: "int_nat_str (s @ [c]) = 10 * int_nat_str s + digit_val c"
  by (simp add: int_nat_str_def)

lemma int_nat_str_single: "int_nat_str [c] = digit_val c"
  by (simp add: int_nat_str_def)

lemma int_nat_str_str_nat: "int_nat_str (str_nat n) = n"
proof (induction n rule: str_nat.induct)
  case (1 n)
  show ?case
  proof (cases "10 \<le> n")
    case True
    then have "int_nat_str (str_nat n) = 10 * int_nat_str (str_nat (n div 10)) + digit_val (digit_chr (n mod 10))"
      by (subst str_nat.simps) (simp add: int_nat_str_snoc)
    also have "\<dots> = 10 * (n div 10) + n mod 10"
      using True "1.IH" by (simp add: digit_val_chr)
    finally show ?thesis by simp
  next
    case False
    then show ?thesis
      by (subst str_nat.simps) (simp add: int_nat_str_single digit_val_chr)
  qed
qed


lemma of_char_digit_chr: "d < 10 \<Longrightarrow> of_char (digit_chr d) = (48 + d :: nat)"
  by (simp add: digit_chr_def)

lemma str_nat_digits: "c \<in> set (str_nat n) \<Longrightarrow> \<exists>d<10. c = digit_chr d"
proof (induction n rule: str_nat.induct)
  case (1 n)
  show ?case
  proof (cases "10 \<le> n")
    case True
    with "1.prems" have "c \<in> set (str_nat (n div 10)) \<or> c = digit_chr (n mod 10)"
      by (subst (asm) str_nat.simps) auto
    then show ?thesis
    proof
      assume "c \<in> set (str_nat (n div 10))"
      with True "1.IH" show ?thesis by simp
    next
      assume "c = digit_chr (n mod 10)"
      moreover have "n mod 10 < 10" by simp
      ultimately show ?thesis by blast
    qed
  next
    case False
    with "1.prems" have "c = digit_chr n"
      by (subst (asm) str_nat.simps) simp
    moreover from False have "n < 10" by simp
    ultimately show ?thesis by blast
  qed
qed

lemma str_nat_not_Nil: "str_nat n \<noteq> []"
  by (subst str_nat.simps) simp

lemma digit_code: "c \<in> set (str_nat n) \<Longrightarrow> 48 \<le> (of_char c :: nat)"
  using str_nat_digits [of c n] by (auto simp: of_char_digit_chr)

lemma minus_not_digit: "CHR ''-'' \<notin> set (str_nat n)"
  using digit_code [of "CHR ''-''" n] by auto



lemma int_str_str_int: "int_str (str_int i) = i"
proof (cases "i < 0")
  case True
  then show ?thesis
    by (simp add: str_int_def int_str_def int_nat_str_str_nat)
next
  case False
  obtain c cs where s: "str_nat (nat i) = c # cs"
    using str_nat_not_Nil [of "nat i"] by (cases "str_nat (nat i)") auto
  have "c \<noteq> CHR ''-''"
    using minus_not_digit [of "nat i"] s by auto
  moreover have "int_nat_str (c # cs) = nat i"
    using int_nat_str_str_nat [of "nat i"] s by simp
  ultimately show ?thesis
    using False s by (simp add: str_int_def int_str_def)
qed



subsection \<open>Concrete runs\<close>

lemma str_int_111: "str_int 111 = ''111''"
  by code_simp

lemma str_int_222: "str_int 222 = ''222''"
  by code_simp

lemma fetched_found: "fetched found tok sid w = Inr example_sheet"
  by (simp add: fetched_def found_def)

lemma fetched_not_found: "fetched not_found tok sid w = Inl ''Not Found''"
  by (simp add: fetched_def not_found_def)




subsection \<open>Reading a column line back\<close>







section \<open>The claims\<close>



text \<open>
  C2. When the fetch fails, whatever the failure, the run ends with nothing on standard
  output and the exception uncaught (its traceback is the only diagnostic). So every
  run prints either nothing or the header followed by the whole column list.
\<close>

theorem fetch_failure_prints_nothing:
  "(fetched get_sheet token sheet_id w = Inl e \<longrightarrow>
      stdout (script get_sheet token sheet_id w) = []
      \<and> uncaught (script get_sheet token sheet_id w) = Some e)
   \<and> (stdout (script get_sheet token sheet_id w) = []
      \<or> (\<exists>sh. fetched get_sheet token sheet_id w = Inr sh
            \<and> stdout (script get_sheet token sheet_id w)
                = lines_text (header sh # map column_line (columns sh))))"
proof (cases "fetched get_sheet token sheet_id w")
  case (Inl e')
  then show ?thesis
    using script_Inl [of get_sheet token sheet_id w e'] by simp
next
  case (Inr sh)
  then show ?thesis
    using script_stdout_Inr [of get_sheet token sheet_id w sh] by simp
qed

theorem fetch_failure_prints_nothing_witness:
  "fetched not_found ACCESS_TOKEN SHEET_ID () = Inl ''Not Found''
   \<and> stdout (script not_found ACCESS_TOKEN SHEET_ID ()) = []
   \<and> uncaught (script not_found ACCESS_TOKEN SHEET_ID ()) = Some ''Not Found''"
proof -
  have h: "fetched not_found ACCESS_TOKEN SHEET_ID () = Inl ''Not Found''"
    by (rule fetched_not_found)
  show ?thesis
    using h fetch_failure_prints_nothing [of not_found ACCESS_TOKEN SHEET_ID "()" "''Not Found''"]
    by blast
qed



text \<open>
  C4. The line emitted for a column of the fetched sheet contains that column's title
  and type tag character for character, and its identifier as the decimal numeral of
  the integer, from which the integer is read back unchanged.
\<close>

theorem column_values_reproduced:
  assumes "fetched get_sheet token sheet_id w = Inr sh"
    and "col \<in> set (columns sh)"
  shows "(\<exists>before after. stdout (script get_sheet token sheet_id w)
            = before @ ''- '' @ title col @ '' (ID: '' @ str_int (id_col col)
                @ '', Type: '' @ type_col col @ '')'' @ [newline] @ after)
       \<and> int_str (str_int (id_col col)) = id_col col"
proof -
  obtain xs ys where split: "columns sh = xs @ col # ys"
    using assms(2) by (auto simp: in_set_conv_decomp)
  have "stdout (script get_sheet token sheet_id w)
          = lines_text (header sh # map column_line xs) @ column_line col @ [newline]
            @ lines_text (map column_line ys)"
    using script_stdout_Inr [OF assms(1)] split by (simp add: lines_text_def)
  then have "stdout (script get_sheet token sheet_id w)
          = lines_text (header sh # map column_line xs)
            @ ''- '' @ title col @ '' (ID: '' @ str_int (id_col col)
                @ '', Type: '' @ type_col col @ '')'' @ [newline]
            @ lines_text (map column_line ys)"
    by (simp add: column_line_def)
  then show ?thesis
    using int_str_str_int by blast
qed

theorem column_values_reproduced_witness:
  "fetched found ACCESS_TOKEN SHEET_ID () = Inr example_sheet
   \<and> \<lparr>title = ''Due Date'', id_col = 222, type_col = ''DATE''\<rparr> \<in> set (columns example_sheet)
   \<and> (\<exists>before after. stdout (script found ACCESS_TOKEN SHEET_ID ())
         = before @ ''- Due Date (ID: 222, Type: DATE)'' @ [newline] @ after)
   \<and> int_str ''222'' = 222"
proof -
  have h: "fetched found ACCESS_TOKEN SHEET_ID () = Inr example_sheet"
    by (rule fetched_found)
  have m: "\<lparr>title = ''Due Date'', id_col = 222, type_col = ''DATE''\<rparr> \<in> set (columns example_sheet)"
    by (simp add: example_sheet_def)
  show ?thesis
    using h m column_values_reproduced [OF h m] by (simp add: str_int_222)
qed

text \<open>
  C5. For the sheet named \<^verbatim>\<open>Project Plan\<close> with the columns
  (\<^verbatim>\<open>Task Name\<close>, 111, \<^verbatim>\<open>TEXT_NUMBER\<close>) and (\<^verbatim>\<open>Due Date\<close>, 222, \<^verbatim>\<open>DATE\<close>) the
  output is exactly the three lines of the specification's example.
\<close>

theorem example_output:
  assumes "fetched get_sheet token sheet_id w = Inr example_sheet"
  shows "stdout (script get_sheet token sheet_id w)
           = ''Columns for sheet 'Project Plan':\<newline>''
             @ ''- Task Name (ID: 111, Type: TEXT_NUMBER)\<newline>''
             @ ''- Due Date (ID: 222, Type: DATE)\<newline>''"
  using script_stdout_Inr [OF assms]
  by (simp add: example_sheet_def lines_text_def header_def column_line_def
        apostrophe_def newline_def str_int_111 str_int_222)

theorem example_output_witness:
  "fetched found ACCESS_TOKEN SHEET_ID () = Inr example_sheet
   \<and> split_lines (stdout (main found ()))
       = [''Columns for sheet 'Project Plan':'',
          ''- Task Name (ID: 111, Type: TEXT_NUMBER)'',
          ''- Due Date (ID: 222, Type: DATE)'']"
proof -
  have h: "fetched found ACCESS_TOKEN SHEET_ID () = Inr example_sheet"
    by (rule fetched_found)
  show ?thesis
    using h example_output [OF h] by (simp add: main_def newline_def)
qed

text \<open>
  C6. When the fetched sheet has no column, the output is the header line alone, and
  the run ends without an exception.
\<close>

theorem no_columns_header_only:
  assumes "fetched get_sheet token sheet_id w = Inr sh"
    and "columns sh = []"
  shows "stdout (script get_sheet token sheet_id w)
           = ''Columns for sheet '' @ [CHR 0x27] @ name sh @ [CHR 0x27] @ '':'' @ [newline]
       \<and> uncaught (script get_sheet token sheet_id w) = None"
  using script_stdout_Inr [OF assms(1)] script_uncaught_Inr [OF assms(1)] assms(2)
  by (simp add: lines_text_def header_def apostrophe_def)

theorem no_columns_header_only_witness:
  "fetched found_empty ACCESS_TOKEN SHEET_ID () = Inr empty_sheet
   \<and> columns empty_sheet = []
   \<and> stdout (script found_empty ACCESS_TOKEN SHEET_ID ()) = ''Columns for sheet 'Empty':\<newline>''"
proof -
  have h: "fetched found_empty ACCESS_TOKEN SHEET_ID () = Inr empty_sheet"
    by (simp add: fetched_def found_empty_def)
  have c: "columns empty_sheet = []"
    by (simp add: empty_sheet_def)
  show ?thesis
    using h c no_columns_header_only [OF h c] by (simp add: empty_sheet_def newline_def)
qed




text \<open>
  C8. A run whose fetch returned the sheet, and which therefore printed every line,
  ends with exit status zero.
\<close>

theorem success_exit_zero:
  assumes "fetched get_sheet token sheet_id w = Inr sh"
  shows "exit_status (script get_sheet token sheet_id w) = 0"
  using script_uncaught_Inr [OF assms] by (simp add: exit_status_def)

theorem success_exit_zero_witness:
  "fetched found ACCESS_TOKEN SHEET_ID () = Inr example_sheet
   \<and> exit_status (main found ()) = 0"
proof -
  have h: "fetched found ACCESS_TOKEN SHEET_ID () = Inr example_sheet"
    by (rule fetched_found)
  show ?thesis
    using h success_exit_zero [OF h] by (simp add: main_def)
qed

text \<open>
  C9. The printed text is a function of the fetched sheet's name and columns alone: two
  runs whose fetches return sheets with the same name and the same columns print the
  same text, whatever the tokens, the sheet identifiers, the libraries and the worlds.
\<close>

theorem output_function_of_sheet:
  assumes "fetched get_sheet token sheet_id w = Inr sh"
    and "fetched get_sheet' token' sheet_id' w' = Inr sh'"
    and "name sh' = name sh"
    and "columns sh' = columns sh"
  shows "stdout (script get_sheet token sheet_id w) = stdout (script get_sheet' token' sheet_id' w')"
  using script_stdout_Inr [OF assms(1)] script_stdout_Inr [OF assms(2)] assms(3,4)
  by (simp add: header_def)

theorem output_function_of_sheet_witness:
  "fetched found ACCESS_TOKEN SHEET_ID () = Inr example_sheet
   \<and> fetched found_elsewhere ''another token'' 42 (7::nat) = Inr example_sheet
   \<and> stdout (script found ACCESS_TOKEN SHEET_ID ())
       = stdout (script found_elsewhere ''another token'' 42 (7::nat))"
proof -
  have h: "fetched found ACCESS_TOKEN SHEET_ID () = Inr example_sheet"
    by (rule fetched_found)
  have h': "fetched found_elsewhere ''another token'' 42 (7::nat) = Inr example_sheet"
    by (simp add: fetched_def found_elsewhere_def)
  show ?thesis
    using h h' output_function_of_sheet [OF h h' refl refl] by simp
qed




end
